theory Spec2Isabelle
  imports Main "HOL-Library.Word" "HOL-Library.Char_ord" "HOL-Library.List_Lexorder" "HOL-Library.AList"
begin

unbundle bit_operations_syntax

section \<open>Entries and the MemTable\<close>

text \<open>
  Go strings are byte sequences compared bytewise and lexicographically, a proper prefix
  being smaller. \<^typ>\<open>string\<close> with the orders of \<open>Char_ord\<close> and \<open>List_Lexorder\<close> is
  exactly that. A \<open>[]byte\<close> is a list of 8-bit words, an \<open>int64\<close> a 64-bit word read
  as two's complement.
\<close>

type_synonym byte = "8 word"

record Entry =
  Key :: string
  Value :: "byte list"
  Timestamp :: "64 word"
  Deleted :: bool

text \<open>The conversions \<open>[]byte(s)\<close> and \<open>string(b)\<close> between a string and its bytes.\<close>

definition bytes_of_string :: "string \<Rightarrow> byte list" where
  "bytes_of_string s = map of_char s"

definition string_of_bytes :: "byte list \<Rightarrow> string" where
  "string_of_bytes b = map (\<lambda>w. char_of (unat w)) b"

text \<open>
  Errors. The source builds its errors with \<open>fmt.Errorf("<context>: %v", err)\<close>; \<open>Wrap\<close>
  keeps the context and the wrapped error. The other constructors are the errors that
  depend on the data; the operating system itself is taken not to fail (creating,
  writing, seeking within and syncing a file succeed).
\<close>

datatype Error =
    ErrMemTableImmutable
  | NotFixedSize string
  | EOF
  | UnexpectedEOF
  | InvalidSeek
  | NotExist
  | FileTooSmall
  | InvalidMagic "32 word"
  | EmptyMemTable
  | IndexCorruption string string
  | NoSSTables
  | StillFlushing
  | ErrTooLong
  | ErrClosed
  | Wrap string Error

text \<open>
  The MemTable of the storage package. The lock \<open>mu\<close> is not modelled: the operations
  are taken one at a time. \<open>sizeBytes\<close> and \<open>maxSize\<close> are \<open>int64\<close> counters that no
  property below depends on; they are kept as unbounded integers.
\<close>

record MemTable =
  entries :: "Entry list"
  sizeBytes :: int
  maxSize :: int
  immutable :: bool

definition DefaultMemTableSize :: int where
  "DefaultMemTableSize = 4 * 1024 * 1024"

definition NewMemTable :: "int \<Rightarrow> MemTable" where
  "NewMemTable maxSize0 =
     \<lparr>entries = [], sizeBytes = 0,
      maxSize = (if maxSize0 \<le> 0 then DefaultMemTableSize else maxSize0),
      immutable = False\<rparr>"

text \<open>
  \<open>sort.Search(n, f)\<close> of the Go standard library: binary search for the smallest index
  in \<open>[0, n)\<close> at which \<open>f\<close> holds, \<open>n\<close> when there is none. The loop is
  \<^verbatim>\<open>i, j := 0, n; for i < j { h := (i+j)/2; if !f(h) { i = h+1 } else { j = h } }; return i\<close>.
\<close>

function Search_loop :: "(nat \<Rightarrow> bool) \<Rightarrow> nat \<Rightarrow> nat \<Rightarrow> nat" where
  "Search_loop f i j =
     (if i < j then
        (let h = (i + j) div 2 in
         if \<not> f h then Search_loop f (h + 1) j else Search_loop f i h)
      else i)"
  by pat_completeness auto
termination
  by (relation "measure (\<lambda>(f, i, j). j - i)") auto

declare Search_loop.simps [simp del]

definition Search :: "nat \<Rightarrow> (nat \<Rightarrow> bool) \<Rightarrow> nat" where
  "Search n f = Search_loop f 0 n"

text \<open>
  \<open>MemTable.Set\<close> and \<open>MemTable.Delete\<close>. The reading of the clock,
  \<open>time.Now().UnixNano()\<close>, is the argument \<open>now\<close>. An existing entry is updated in
  place; a new one is inserted at \<open>idx\<close> by \<open>append\<close> and \<open>copy\<close>, which shifts the
  tail one place to the right.
\<close>

definition MemTable_Set :: "MemTable \<Rightarrow> string \<Rightarrow> byte list \<Rightarrow> 64 word \<Rightarrow> Error option \<times> MemTable" where
  "MemTable_Set mt key val now =
     (if immutable mt then (Some ErrMemTableImmutable, mt)
      else
        let es = entries mt;
            idx = Search (length es) (\<lambda>i. Key (es ! i) \<ge> key);
            entrySize = int (length key + length val + 24)
        in
          if idx < length es \<and> Key (es ! idx) = key then
            let oldSize = int (length (Value (es ! idx))) in
            (None, mt\<lparr>entries := es[idx := (es ! idx)\<lparr>Value := val, Timestamp := now, Deleted := False\<rparr>],
                       sizeBytes := sizeBytes mt - oldSize + int (length val)\<rparr>)
          else
            let entry = \<lparr>Key = key, Value = val, Timestamp = now, Deleted = False\<rparr> in
            (None, mt\<lparr>entries := take idx es @ entry # drop idx es,
                       sizeBytes := sizeBytes mt + entrySize\<rparr>))"

definition MemTable_Delete :: "MemTable \<Rightarrow> string \<Rightarrow> 64 word \<Rightarrow> Error option \<times> MemTable" where
  "MemTable_Delete mt key now =
     (if immutable mt then (Some ErrMemTableImmutable, mt)
      else
        let es = entries mt;
            idx = Search (length es) (\<lambda>i. Key (es ! i) \<ge> key);
            entrySize = int (length key + 24)
        in
          if idx < length es \<and> Key (es ! idx) = key then
            (None, mt\<lparr>entries := es[idx := (es ! idx)\<lparr>Deleted := True, Timestamp := now\<rparr>]\<rparr>)
          else
            let entry = \<lparr>Key = key, Value = [], Timestamp = now, Deleted = True\<rparr> in
            (None, mt\<lparr>entries := take idx es @ entry # drop idx es,
                       sizeBytes := sizeBytes mt + entrySize\<rparr>))"

definition MemTable_Get :: "MemTable \<Rightarrow> string \<Rightarrow> byte list option" where
  "MemTable_Get mt key =
     (let es = entries mt;
          idx = Search (length es) (\<lambda>i. Key (es ! i) \<ge> key)
      in if idx < length es \<and> Key (es ! idx) = key then
           (if Deleted (es ! idx) then None else Some (Value (es ! idx)))
         else None)"

definition ShouldFlush :: "MemTable \<Rightarrow> bool" where
  "ShouldFlush mt = (sizeBytes mt \<ge> maxSize mt)"

definition MakeImmutable :: "MemTable \<Rightarrow> MemTable" where
  "MakeImmutable mt = mt\<lparr>immutable := True\<rparr>"

definition IsImmutable :: "MemTable \<Rightarrow> bool" where
  "IsImmutable mt = immutable mt"

definition GetAllEntries :: "MemTable \<Rightarrow> Entry list" where
  "GetAllEntries mt = entries mt"

text \<open>A sequence of calls on one MemTable; a call that returns an error leaves it as it was.\<close>

datatype MemTableOp = OpSet string "byte list" "64 word" | OpDelete string "64 word"

fun applyOp :: "MemTable \<Rightarrow> MemTableOp \<Rightarrow> MemTable" where
  "applyOp mt (OpSet k v now) = snd (MemTable_Set mt k v now)"
| "applyOp mt (OpDelete k now) = snd (MemTable_Delete mt k now)"

definition applyOps :: "MemTable \<Rightarrow> MemTableOp list \<Rightarrow> MemTable" where
  "applyOps mt ops = foldl applyOp mt ops"


section \<open>The SSTable writer\<close>

text \<open>
  \<open>binary.Write(w, binary.LittleEndian, data)\<close> takes \<open>data\<close> as an interface value and
  encodes it by its dynamic type. \<open>GoValue\<close> lists the dynamic types that reach it in this
  program. Package \<open>encoding/binary\<close> documents that \<open>data\<close> must be a fixed-size value
  or a slice of fixed-size values, or a pointer to such data, a fixed-size value being
  one of \<open>bool\<close>, \<open>int8\<close>, \<open>uint8\<close>, ..., \<open>int64\<close>, \<open>uint64\<close>, the floats and complex
  types, or an array or struct of such values. The platform-sized type \<open>int\<close> is not
  among them: for an \<open>int\<close> the function writes nothing and returns the error
  \<open>binary.Write: some values are not fixed-sized in type int\<close>.
\<close>

datatype GoValue =
    V_uint8 "8 word"
  | V_uint32 "32 word"
  | V_uint64 "64 word"
  | V_int64 "64 word"
  | V_int int

text \<open>
  Little-endian encoding: \<open>le_bytes n w\<close> is the \<open>n\<close> low bytes of \<open>w\<close>, lowest first;
  \<open>le_word\<close> puts the bytes back together.
\<close>

fun le_bytes :: "nat \<Rightarrow> 'a::len word \<Rightarrow> byte list" where
  "le_bytes 0 w = []"
| "le_bytes (Suc n) w = ucast w # le_bytes n (drop_bit 8 w)"

fun le_word :: "byte list \<Rightarrow> 'a::len word" where
  "le_word [] = 0"
| "le_word (b # bs) = ucast b OR push_bit 8 (le_word bs)"

fun binary_Write :: "byte list \<Rightarrow> GoValue \<Rightarrow> byte list \<times> Error option" where
  "binary_Write file (V_uint8 w) = (file @ [w], None)"
| "binary_Write file (V_uint32 w) = (file @ le_bytes 4 w, None)"
| "binary_Write file (V_uint64 w) = (file @ le_bytes 8 w, None)"
| "binary_Write file (V_int64 w) = (file @ le_bytes 8 w, None)"
| "binary_Write file (V_int i) = (file, Some (NotFixedSize ''int''))"

text \<open>
  \<open>file.Write(b)\<close> on the file being created appends \<open>b\<close> and returns its length. The file
  under construction is the list of the bytes written so far.
\<close>

definition file_Write :: "byte list \<Rightarrow> byte list \<Rightarrow> byte list \<times> nat \<times> Error option" where
  "file_Write file b = (file @ b, length b, None)"

text \<open>
  The untyped constants of the package. Where the source passes one of them to
  \<open>binary.Write\<close> it is converted to the constant's default type, \<open>int\<close>; where it
  compares one with a \<open>uint32\<close> field it is a \<open>uint32\<close>.
\<close>

definition MagicNumber :: int where
  "MagicNumber = 0xBABECAFE"

definition Version :: int where
  "Version = 1"

record IndexEntry =
  ie_Key :: string
  ie_Offset :: "64 word"

text \<open>Each writer returns the file, the bytes it counted (an \<open>int64\<close>) and the error.\<close>

definition WriteKey :: "byte list \<Rightarrow> string \<Rightarrow> byte list \<times> 64 word \<times> Error option" where
  "WriteKey file key =
     (let keyLength = (of_nat (length key) :: 32 word) in
      case binary_Write file (V_uint32 keyLength) of
        (file1, Some err) \<Rightarrow> (file1, 0, Some (Wrap ''failed to write key length'' err))
      | (file1, None) \<Rightarrow>
          (case file_Write file1 (bytes_of_string key) of
             (file2, n, Some err) \<Rightarrow> (file2, 4, Some (Wrap ''failed to write key bytes'' err))
           | (file2, n, None) \<Rightarrow> (file2, 4 + of_nat n, None)))"

definition WriteValue :: "byte list \<Rightarrow> byte list \<Rightarrow> byte list \<times> 64 word \<times> Error option" where
  "WriteValue file val =
     (let valueLength = (of_nat (length val) :: 32 word) in
      case binary_Write file (V_uint32 valueLength) of
        (file1, Some err) \<Rightarrow> (file1, 0, Some (Wrap ''failed to write value length'' err))
      | (file1, None) \<Rightarrow>
          (case file_Write file1 val of
             (file2, n, Some err) \<Rightarrow> (file2, 4, Some (Wrap ''failed to write value bytes'' err))
           | (file2, n, None) \<Rightarrow> (file2, 4 + of_nat n, None)))"

definition WriteMetadata :: "byte list \<Rightarrow> 64 word \<Rightarrow> bool \<Rightarrow> byte list \<times> 64 word \<times> Error option" where
  "WriteMetadata file timestamp isDeleted =
     (case binary_Write file (V_int64 timestamp) of
        (file1, Some err) \<Rightarrow> (file1, 0, Some (Wrap ''failed to write timestamp'' err))
      | (file1, None) \<Rightarrow>
          (let deletedByte = (if isDeleted then 1 else 0 :: 8 word) in
           case binary_Write file1 (V_uint8 deletedByte) of
             (file2, Some err) \<Rightarrow> (file2, 8, Some (Wrap ''failed to write deleted byte'' err))
           | (file2, None) \<Rightarrow> (file2, 8 + 1, None)))"

definition WriteEntry :: "byte list \<Rightarrow> string \<Rightarrow> byte list \<Rightarrow> 64 word \<Rightarrow> bool \<Rightarrow> byte list \<times> 64 word \<times> Error option" where
  "WriteEntry file key val timestamp isDeleted =
     (case WriteKey file key of
        (file1, n1, Some err) \<Rightarrow> (file1, 0, Some (Wrap ''failed to write key'' err))
      | (file1, n1, None) \<Rightarrow>
          (case WriteValue file1 val of
             (file2, n2, Some err) \<Rightarrow> (file2, n1, Some (Wrap ''failed to write value'' err))
           | (file2, n2, None) \<Rightarrow>
               (case WriteMetadata file2 timestamp isDeleted of
                  (file3, n3, Some err) \<Rightarrow> (file3, n1 + n2, Some (Wrap ''failed to write metadata'' err))
                | (file3, n3, None) \<Rightarrow> (file3, n1 + n2 + n3, None))))"

text \<open>
  The loop of \<open>WriteEntries\<close>, with its two variables \<open>indexEntries\<close> and \<open>currentOffset\<close>
  as arguments. On an error the source returns \<open>nil, 0, err\<close>.
\<close>

fun WriteEntries_loop :: "byte list \<Rightarrow> Entry list \<Rightarrow> IndexEntry list \<Rightarrow> 64 word
    \<Rightarrow> byte list \<times> IndexEntry list \<times> 64 word \<times> Error option" where
  "WriteEntries_loop file [] indexEntries currentOffset = (file, indexEntries, currentOffset, None)"
| "WriteEntries_loop file (entry # rest) indexEntries currentOffset =
     (case WriteEntry file (Key entry) (Value entry) (Timestamp entry) (Deleted entry) of
        (file1, bytesWritten, Some err) \<Rightarrow> (file1, [], 0, Some (Wrap ''failed to write entry'' err))
      | (file1, bytesWritten, None) \<Rightarrow>
          WriteEntries_loop file1 rest
            (indexEntries @ [\<lparr>ie_Key = Key entry, ie_Offset = currentOffset\<rparr>])
            (currentOffset + bytesWritten))"

definition WriteEntries :: "byte list \<Rightarrow> Entry list \<Rightarrow> byte list \<times> IndexEntry list \<times> 64 word \<times> Error option" where
  "WriteEntries file es = WriteEntries_loop file es [] 0"

text \<open>
  \<open>WriteIndex\<close> returns the index start offset (the size of the file before the index),
  the bytes counted and the error.
\<close>

fun WriteIndex_loop :: "byte list \<Rightarrow> IndexEntry list \<Rightarrow> 64 word \<Rightarrow> byte list \<times> 64 word \<times> Error option" where
  "WriteIndex_loop file [] bytesWritten = (file, bytesWritten, None)"
| "WriteIndex_loop file (indexEntry # rest) bytesWritten =
     (let keyLen = (of_nat (length (ie_Key indexEntry)) :: 32 word) in
      case binary_Write file (V_uint32 keyLen) of
        (file1, Some err) \<Rightarrow> (file1, bytesWritten, Some (Wrap ''failed to write key length'' err))
      | (file1, None) \<Rightarrow>
          (case file_Write file1 (bytes_of_string (ie_Key indexEntry)) of
             (file2, n, Some err) \<Rightarrow> (file2, bytesWritten + 4, Some (Wrap ''failed to write key'' err))
           | (file2, n, None) \<Rightarrow>
               (case binary_Write file2 (V_int64 (ie_Offset indexEntry)) of
                  (file3, Some err) \<Rightarrow>
                    (file3, bytesWritten + 4 + of_nat n, Some (Wrap ''failed to write offset'' err))
                | (file3, None) \<Rightarrow> WriteIndex_loop file3 rest (bytesWritten + 4 + of_nat n + 8))))"

definition WriteIndex :: "byte list \<Rightarrow> IndexEntry list \<Rightarrow> byte list \<times> 64 word \<times> 64 word \<times> Error option" where
  "WriteIndex file indexEntries =
     (let indexStartOffset = (of_nat (length file) :: 64 word) in
      case WriteIndex_loop file indexEntries 0 of
        (file1, bytesWritten, err) \<Rightarrow> (file1, indexStartOffset, bytesWritten, err))"

text \<open>
  \<open>WriteFooter\<close>. The first two fields are converted to \<open>uint64\<close> and \<open>uint32\<close> before
  they are written. \<open>Version\<close> and \<open>MagicNumber\<close> are passed as they are, as \<open>int\<close>
  values. The counter \<open>bytesWritten\<close> is advanced by 8, 8, 4 and 8.
\<close>

definition WriteFooter :: "byte list \<Rightarrow> 64 word \<Rightarrow> 64 word \<Rightarrow> byte list \<times> 64 word \<times> Error option" where
  "WriteFooter file indexStartOffset numberOfEntries =
     (case binary_Write file (V_uint64 indexStartOffset) of
        (file1, Some err) \<Rightarrow> (file1, 0, Some (Wrap ''failed to write index start offset'' err))
      | (file1, None) \<Rightarrow>
      (case binary_Write file1 (V_uint32 (ucast numberOfEntries)) of
        (file2, Some err) \<Rightarrow> (file2, 8, Some (Wrap ''failed to write index bytes written'' err))
      | (file2, None) \<Rightarrow>
      (case binary_Write file2 (V_int Version) of
        (file3, Some err) \<Rightarrow> (file3, 8 + 8, Some (Wrap ''failed to write version'' err))
      | (file3, None) \<Rightarrow>
      (case binary_Write file3 (V_int MagicNumber) of
        (file4, Some err) \<Rightarrow> (file4, 8 + 8 + 4, Some (Wrap ''failed to write bytes written'' err))
      | (file4, None) \<Rightarrow> (file4, 8 + 8 + 4 + 8, None)))))"

text \<open>
  The file system: the files by path, with their contents. \<open>os.Create\<close> truncates or
  creates the file; the deferred \<open>file.Close\<close> leaves whatever was written, also when
  \<open>CreateSSTable\<close> returns an error. The final \<open>file.Sync()\<close> changes nothing here:
  the file system of this model does not tell written bytes from synced ones.
\<close>

type_synonym FS = "(string \<times> byte list) list"

definition CreateSSTable :: "FS \<Rightarrow> string \<Rightarrow> Entry list \<Rightarrow> FS \<times> Error option" where
  "CreateSSTable fs path es =
     (case WriteEntries [] es of
        (file1, indexEntries, uu, Some err) \<Rightarrow>
          (AList.update path file1 fs, Some (Wrap ''failed to write entries'' err))
      | (file1, indexEntries, uu, None) \<Rightarrow>
      (case WriteIndex file1 indexEntries of
        (file2, indexStartOffset, uv, Some err) \<Rightarrow>
          (AList.update path file2 fs, Some (Wrap ''failed to write index'' err))
      | (file2, indexStartOffset, uv, None) \<Rightarrow>
      (case WriteFooter file2 indexStartOffset (of_nat (length es)) of
        (file3, uw, Some err) \<Rightarrow>
          (AList.update path file3 fs, Some (Wrap ''failed to write footer'' err))
      | (file3, uw, None) \<Rightarrow> (AList.update path file3 fs, None))))"

definition FlushMemTableToSSTable :: "FS \<Rightarrow> MemTable \<Rightarrow> string \<Rightarrow> FS \<times> Error option" where
  "FlushMemTableToSSTable fs memTable path =
     (let es = GetAllEntries memTable in
      if length es = 0 then (fs, Some EmptyMemTable)
      else CreateSSTable fs path es)"


section \<open>The SSTable reader\<close>

text \<open>
  An open file: its content and the offset of the handle. \<open>Seek\<close> is always called
  with \<open>io.SeekStart\<close>; it fails on a negative offset and may go past the end of the
  file. \<open>io.ReadFull\<close> of \<open>n\<close> bytes returns at once when \<open>n = 0\<close>, fails with \<open>io.EOF\<close>
  when nothing is left and with \<open>io.ErrUnexpectedEOF\<close> when fewer than \<open>n\<close> bytes are;
  \<open>binary.Read\<close> of a fixed-size integer is \<open>io.ReadFull\<close> of its size followed by the
  decoding.
\<close>

record File =
  content :: "byte list"
  pos :: nat

type_synonym 'a reader = "File \<Rightarrow> File \<times> (Error + 'a)"

definition ret :: "'a \<Rightarrow> 'a reader" where
  "ret x f = (f, Inr x)"

definition fail :: "Error \<Rightarrow> 'a reader" where
  "fail e f = (f, Inl e)"

text \<open>\<open>andThen ctx m k\<close>: run \<open>m\<close>; on an error return it wrapped in \<open>ctx\<close>, else go on with \<open>k\<close>.\<close>

definition andThen :: "string \<Rightarrow> 'a reader \<Rightarrow> ('a \<Rightarrow> 'b reader) \<Rightarrow> 'b reader" where
  "andThen ctx m k f =
     (case m f of
        (f1, Inl err) \<Rightarrow> (f1, Inl (Wrap ctx err))
      | (f1, Inr x) \<Rightarrow> k x f1)"

definition Seek :: "int \<Rightarrow> unit reader" where
  "Seek offset f = (if offset < 0 then (f, Inl InvalidSeek) else (f\<lparr>pos := nat offset\<rparr>, Inr ()))"

definition ReadFull :: "nat \<Rightarrow> (byte list) reader" where
  "ReadFull n f =
     (if n = 0 then (f, Inr [])
      else if length (content f) \<le> pos f then (f, Inl EOF)
      else if length (content f) - pos f < n then (f\<lparr>pos := length (content f)\<rparr>, Inl UnexpectedEOF)
      else (f\<lparr>pos := pos f + n\<rparr>, Inr (take n (drop (pos f) (content f)))))"

definition binary_Read_uint32 :: "(32 word) reader" where
  "binary_Read_uint32 f =
     (case ReadFull 4 f of
        (f1, Inl err) \<Rightarrow> (f1, Inl err)
      | (f1, Inr bs) \<Rightarrow> (f1, Inr (le_word bs)))"

definition binary_Read_int64 :: "(64 word) reader" where
  "binary_Read_int64 f =
     (case ReadFull 8 f of
        (f1, Inl err) \<Rightarrow> (f1, Inl err)
      | (f1, Inr bs) \<Rightarrow> (f1, Inr (le_word bs)))"

definition binary_Read_byte :: "(8 word) reader" where
  "binary_Read_byte f =
     (case ReadFull 1 f of
        (f1, Inl err) \<Rightarrow> (f1, Inl err)
      | (f1, Inr bs) \<Rightarrow> (f1, Inr (le_word bs)))"

record SSTableFooter =
  IndexStartOffset :: "64 word"
  NumberOfEntries :: "32 word"
  FooterVersion :: "32 word"
  FooterMagicNumber :: "32 word"

text \<open>
  \<open>ReadFooter\<close>. The size check returns its error unwrapped. The only field that is
  compared with anything is \<open>MagicNumber\<close>.
\<close>

definition ReadFooter :: "SSTableFooter reader" where
  "ReadFooter f =
     (let fileSize = int (length (content f)); footerSize = 20 in
      if fileSize < footerSize then (f, Inl FileTooSmall)
      else
        (andThen ''failed to seek to footer'' (Seek (fileSize - footerSize)) (\<lambda>_.
         andThen ''failed to read footer'' binary_Read_int64 (\<lambda>indexStartOffset.
         andThen ''failed to read number of entries'' binary_Read_uint32 (\<lambda>numberOfEntries.
         andThen ''failed to read version'' binary_Read_uint32 (\<lambda>version.
         andThen ''failed to read magic number'' binary_Read_uint32 (\<lambda>magicNumber.
           if magicNumber \<noteq> word_of_int MagicNumber then fail (InvalidMagic magicNumber)
           else ret \<lparr>IndexStartOffset = indexStartOffset, NumberOfEntries = numberOfEntries,
                     FooterVersion = version, FooterMagicNumber = magicNumber\<rparr>)))))) f)"

text \<open>
  The index is a Go map from keys to offsets. It is modelled by an association list
  with one pair per key: \<open>index[key] = offset\<close> is \<open>AList.update\<close>, a lookup is
  \<open>map_of\<close>, \<open>len\<close> is the length.
\<close>

type_synonym Index = "(string \<times> 64 word) list"

fun ReadIndex_loop :: "nat \<Rightarrow> Index \<Rightarrow> Index reader" where
  "ReadIndex_loop 0 index = ret index"
| "ReadIndex_loop (Suc n) index =
     andThen ''failed to read key length'' binary_Read_uint32 (\<lambda>keyLength.
     andThen ''failed to read key'' (ReadFull (unat keyLength)) (\<lambda>key.
     andThen ''failed to read offset'' binary_Read_int64 (\<lambda>offset.
       ReadIndex_loop n (AList.update (string_of_bytes key) offset index))))"

definition ReadIndex :: "SSTableFooter \<Rightarrow> Index reader" where
  "ReadIndex footer =
     andThen ''failed to seek to index'' (Seek (sint (IndexStartOffset footer))) (\<lambda>_.
       ReadIndex_loop (unat (NumberOfEntries footer)) [])"

definition ReadEntryAtOffset :: "64 word \<Rightarrow> Entry reader" where
  "ReadEntryAtOffset offset =
     andThen ''failed to seek to entry'' (Seek (sint offset)) (\<lambda>_.
     andThen ''failed to read key length'' binary_Read_uint32 (\<lambda>keyLength.
     andThen ''failed to read key'' (ReadFull (unat keyLength)) (\<lambda>keyBytes.
     andThen ''failed to read value length'' binary_Read_uint32 (\<lambda>valueLength.
     andThen ''failed to read value'' (ReadFull (unat valueLength)) (\<lambda>valueBytes.
     andThen ''failed to read timestamp'' binary_Read_int64 (\<lambda>timestamp.
     andThen ''failed to read deleted'' binary_Read_byte (\<lambda>deleted.
       ret \<lparr>Key = string_of_bytes keyBytes, Value = valueBytes, Timestamp = timestamp,
            Deleted = (deleted \<noteq> 0)\<rparr>)))))))"

record SSTable =
  filePath :: string
  handle :: File
  index :: Index
  footer :: SSTableFooter

text \<open>\<open>os.Open\<close> fails when there is no file at the path; a new handle starts at offset 0.\<close>

definition OpenSSTable :: "FS \<Rightarrow> string \<Rightarrow> Error + SSTable" where
  "OpenSSTable fs path =
     (case map_of fs path of
        None \<Rightarrow> Inl (Wrap ''failed to open file'' NotExist)
      | Some bytes \<Rightarrow>
          (case ReadFooter \<lparr>content = bytes, pos = 0\<rparr> of
             (f1, Inl err) \<Rightarrow> Inl (Wrap ''failed to read footer'' err)
           | (f1, Inr ft) \<Rightarrow>
               (case ReadIndex ft f1 of
                  (f2, Inl err) \<Rightarrow> Inl (Wrap ''failed to read index'' err)
                | (f2, Inr idx) \<Rightarrow>
                    Inr \<lparr>filePath = path, handle = f2, index = idx, footer = ft\<rparr>)))"

text \<open>
  \<open>SSTable.Get\<close> returns \<open>(value, found, err)\<close>: here \<open>Inr (Some value)\<close> when found,
  \<open>Inr None\<close> when not, \<open>Inl err\<close> on an error. Reading moves the handle, so the table
  is returned too.
\<close>

definition SSTable_Get :: "SSTable \<Rightarrow> string \<Rightarrow> SSTable \<times> (Error + byte list option)" where
  "SSTable_Get s key =
     (case map_of (index s) key of
        None \<Rightarrow> (s, Inr None)
      | Some offset \<Rightarrow>
          (case ReadEntryAtOffset offset (handle s) of
             (f1, Inl err) \<Rightarrow> (s\<lparr>handle := f1\<rparr>, Inl (Wrap ''failed to read entry'' err))
           | (f1, Inr entry) \<Rightarrow>
               if Key entry \<noteq> key then (s\<lparr>handle := f1\<rparr>, Inl (IndexCorruption (Key entry) key))
               else if Deleted entry then (s\<lparr>handle := f1\<rparr>, Inr None)
               else (s\<lparr>handle := f1\<rparr>, Inr (Some (Value entry)))))"

definition NumEntries :: "SSTable \<Rightarrow> nat" where
  "NumEntries sst = length (index sst)"

definition FilePath :: "SSTable \<Rightarrow> string" where
  "FilePath sst = filePath sst"

definition ContainsKey :: "SSTable \<Rightarrow> string \<Rightarrow> bool" where
  "ContainsKey sst key = (map_of (index sst) key \<noteq> None)"

section \<open>Compaction\<close>

definition mergeEntries :: "Entry \<Rightarrow> Entry \<Rightarrow> Entry" where
  "mergeEntries e1 e2 = (if sint (Timestamp e1) > sint (Timestamp e2) then e1 else e2)"

text \<open>
  \<open>getAllEntriesFromSSTable\<close> ranges over the index map. Go leaves the order of a map
  iteration to the runtime: \<open>iter\<close> stands for its choice and gives the pairs of the map
  in the order in which they are visited. An entry that cannot be read, or whose key is
  not the key of the index, is skipped.
\<close>

fun getAllEntries_loop :: "File \<Rightarrow> Index \<Rightarrow> Entry list \<Rightarrow> File \<times> Entry list" where
  "getAllEntries_loop f [] acc = (f, acc)"
| "getAllEntries_loop f ((key, offset) # rest) acc =
     (case ReadEntryAtOffset offset f of
        (f1, Inl err) \<Rightarrow> getAllEntries_loop f1 rest acc
      | (f1, Inr entry) \<Rightarrow>
          if Key entry \<noteq> key then getAllEntries_loop f1 rest acc
          else getAllEntries_loop f1 rest (acc @ [entry]))"

definition getAllEntriesFromSSTable :: "(Index \<Rightarrow> Index) \<Rightarrow> SSTable \<Rightarrow> SSTable \<times> Entry list" where
  "getAllEntriesFromSSTable iter sst =
     (case getAllEntries_loop (handle sst) (iter (index sst)) [] of
        (f1, es) \<Rightarrow> (sst\<lparr>handle := f1\<rparr>, es))"

text \<open>
  \<open>mergeSortedEntries\<close>: the two indices \<open>i\<close> and \<open>j\<close> of the source are the heads of the
  two remaining lists; when one list is exhausted the rest of the other is appended.
\<close>

fun mergeSortedEntries :: "Entry list \<Rightarrow> Entry list \<Rightarrow> Entry list" where
  "mergeSortedEntries (e1 # entries1) (e2 # entries2) =
     (if Key e1 < Key e2 then e1 # mergeSortedEntries entries1 (e2 # entries2)
      else if Key e1 > Key e2 then e2 # mergeSortedEntries (e1 # entries1) entries2
      else
        (let merged = mergeEntries e1 e2 in
         if \<not> Deleted merged then merged # mergeSortedEntries entries1 entries2
         else mergeSortedEntries entries1 entries2))"
| "mergeSortedEntries [] entries2 = entries2"
| "mergeSortedEntries entries1 [] = entries1"

definition MergeTwoSSTables :: "(Index \<Rightarrow> Index) \<Rightarrow> FS \<Rightarrow> SSTable \<Rightarrow> SSTable \<Rightarrow> string
    \<Rightarrow> FS \<times> SSTable \<times> SSTable \<times> (Error + string)" where
  "MergeTwoSSTables iter fs sst1 sst2 outputPath =
     (case getAllEntriesFromSSTable iter sst1 of (sst1', entries1) \<Rightarrow>
      case getAllEntriesFromSSTable iter sst2 of (sst2', entries2) \<Rightarrow>
      let mergedEntries = mergeSortedEntries entries1 entries2 in
      case CreateSSTable fs outputPath mergedEntries of
        (fs', Some err) \<Rightarrow> (fs', sst1', sst2', Inl err)
      | (fs', None) \<Rightarrow> (fs', sst1', sst2', Inr outputPath))"

text \<open>
  \<open>CompactSSTables\<close>. \<open>collectEntries\<close> is its first loop (all entries of all tables),
  \<open>mergeAll\<close> its second (\<open>merged = allEntries[0]\<close>, then one \<open>mergeSortedEntries\<close> per
  further table, from left to right).
\<close>

fun collectEntries :: "(Index \<Rightarrow> Index) \<Rightarrow> SSTable list \<Rightarrow> SSTable list \<times> Entry list list" where
  "collectEntries iter [] = ([], [])"
| "collectEntries iter (sst # rest) =
     (case getAllEntriesFromSSTable iter sst of (sst', es) \<Rightarrow>
      case collectEntries iter rest of (rest', ess) \<Rightarrow> (sst' # rest', es # ess))"

fun mergeAll :: "Entry list list \<Rightarrow> Entry list" where
  "mergeAll [] = []"
| "mergeAll (first # others) = foldl mergeSortedEntries first others"

definition CompactSSTables :: "(Index \<Rightarrow> Index) \<Rightarrow> FS \<Rightarrow> SSTable list \<Rightarrow> string
    \<Rightarrow> FS \<times> SSTable list \<times> (Error + string)" where
  "CompactSSTables iter fs sstables outputPath =
     (if length sstables = 0 then (fs, sstables, Inl NoSSTables)
      else if length sstables = 1 then (fs, sstables, Inr (FilePath (sstables ! 0)))
      else
        (case collectEntries iter sstables of (sstables', allEntries) \<Rightarrow>
         let merged = mergeAll allEntries in
         case CreateSSTable fs outputPath merged of
           (fs', Some err) \<Rightarrow> (fs', sstables', Inl err)
         | (fs', None) \<Rightarrow> (fs', sstables', Inr outputPath)))"

section \<open>The LSM store\<close>

record LSMStore =
  memTable :: MemTable
  immutableMemTable :: "MemTable option"
  sstables :: "SSTable list"
  memtableSize :: int
  dataDir :: string
  nextSSTableID :: int

text \<open>The verb \<open>%d\<close> of \<open>fmt.Sprintf\<close>: an integer in decimal.\<close>

function utoa :: "nat \<Rightarrow> string" where
  "utoa n = (if n < 10 then [''0123456789'' ! n] else utoa (n div 10) @ [''0123456789'' ! (n mod 10)])"
  by pat_completeness auto
termination
  by (relation "measure (\<lambda>n. n)") auto

declare utoa.simps [simp del]

definition itoa :: "int \<Rightarrow> string" where
  "itoa i = (if i < 0 then CHR ''-'' # utoa (nat (- i)) else utoa (nat i))"

text \<open>
  \<open>strconv.Atoi\<close>: an optional sign followed by one or more decimal digits, within the
  range of a 64-bit \<open>int\<close>; anything else is an error (\<open>None\<close>).
\<close>

definition isDigit :: "char \<Rightarrow> bool" where
  "isDigit c = (c \<in> set ''0123456789'')"

definition digitVal :: "char \<Rightarrow> int" where
  "digitVal c = of_char c - 48"

definition Atoi :: "string \<Rightarrow> int option" where
  "Atoi s =
     (let signed = (s \<noteq> [] \<and> (hd s = CHR ''-'' \<or> hd s = CHR ''+''));
          ds = (if signed then tl s else s)
      in if ds = [] \<or> \<not> list_all isDigit ds then None
         else
           let n = foldl (\<lambda>a c. 10 * a + digitVal c) 0 ds;
               v = (if hd s = CHR ''-'' then - n else n)
           in if v < - (2 ^ 63) \<or> 2 ^ 63 - 1 < v then None else Some v)"

definition TrimPrefix :: "string \<Rightarrow> string \<Rightarrow> string" where
  "TrimPrefix s prefix = (if take (length prefix) s = prefix then drop (length prefix) s else s)"

definition TrimSuffix :: "string \<Rightarrow> string \<Rightarrow> string" where
  "TrimSuffix s suffix =
     (if length suffix \<le> length s \<and> drop (length s - length suffix) s = suffix
      then take (length s - length suffix) s else s)"

text \<open>\<open>filepath.Base\<close>: the last element of the path, trailing separators removed first.\<close>

definition Base :: "string \<Rightarrow> string" where
  "Base p =
     (if p = [] then ''.''
      else
        let q = rev (dropWhile (\<lambda>c. c = CHR ''/'') (rev p)) in
        if q = [] then ''/'' else rev (takeWhile (\<lambda>c. c \<noteq> CHR ''/'') (rev q)))"

definition extractSSTableId :: "string \<Rightarrow> int" where
  "extractSSTableId fileName =
     (let base = Base fileName;
          idStr = TrimSuffix (TrimPrefix base ''sstable-'') ''.db''
      in case Atoi idStr of None \<Rightarrow> 0 | Some i \<Rightarrow> i)"

text \<open>
  \<open>filepath.Glob(filepath.Join(dataDir, "sstable-*.db"))\<close>, for a data directory given
  by a plain path (no trailing separator, no pattern characters): the files directly in
  \<open>dataDir\<close> whose name is \<open>sstable-\<close>, then any characters, then \<open>.db\<close>; \<open>Glob\<close> returns
  them sorted by name.
\<close>

definition matchSSTable :: "string \<Rightarrow> bool" where
  "matchSSTable name =
     (11 \<le> length name \<and> take 8 name = ''sstable-'' \<and> drop (length name - 3) name = ''.db''
      \<and> CHR ''/'' \<notin> set name)"

definition Glob :: "FS \<Rightarrow> string \<Rightarrow> string list" where
  "Glob fs dir =
     sort (filter (\<lambda>p. take (length dir + 1) p = dir @ ''/'' \<and> matchSSTable (drop (length dir + 1) p))
             (map fst fs))"

text \<open>
  The loop of \<open>loadSSTables\<close> over the sorted file names. \<open>sort.Slice\<close> orders the names
  by increasing id; it does not promise an order among names of the same id, for which
  the stable order is taken here.
\<close>

fun loadSSTables_loop :: "FS \<Rightarrow> string list \<Rightarrow> LSMStore \<Rightarrow> Error + LSMStore" where
  "loadSSTables_loop fs [] store = Inr store"
| "loadSSTables_loop fs (fileName # rest) store =
     (case OpenSSTable fs fileName of
        Inl err \<Rightarrow> Inl (Wrap ''failed to open sstable'' err)
      | Inr sstable \<Rightarrow>
          let store1 = store\<lparr>sstables := sstables store @ [sstable]\<rparr>;
              id = extractSSTableId fileName
          in loadSSTables_loop fs rest
               (if id \<ge> nextSSTableID store1 then store1\<lparr>nextSSTableID := id + 1\<rparr> else store1))"

definition loadSSTables :: "FS \<Rightarrow> LSMStore \<Rightarrow> Error + LSMStore" where
  "loadSSTables fs store =
     (let files = Glob fs (dataDir store) in
      if length files = 0 then Inr store
      else loadSSTables_loop fs (sort_key extractSSTableId files) store)"

definition NewLSMStore :: "FS \<Rightarrow> int \<Rightarrow> string \<Rightarrow> Error + LSMStore" where
  "NewLSMStore fs memtableSize0 dataDir0 =
     (let memtableSize1 = (if memtableSize0 \<le> 0 then DefaultMemTableSize else memtableSize0);
          dataDir1 = (if dataDir0 = [] then ''database'' else dataDir0);
          store = \<lparr>memTable = NewMemTable memtableSize1,
                   immutableMemTable = Some (NewMemTable memtableSize1),
                   sstables = [], memtableSize = memtableSize1, dataDir = dataDir1,
                   nextSSTableID = 0\<rparr>
      in case loadSSTables fs store of
           Inl err \<Rightarrow> Inl (Wrap ''failed to load sstables'' err)
         | Inr store' \<Rightarrow> Inr store')"

text \<open>
  \<open>LSMStore.Get\<close>: the MemTable, the immutable MemTable when there is one, then the
  SSTables in the order of the slice, from index 0. A table that returns an error or
  does not find the key (also when it holds a tombstone for it) is passed over.
\<close>

fun Get_sstables :: "SSTable list \<Rightarrow> string \<Rightarrow> SSTable list \<times> byte list option" where
  "Get_sstables [] key = ([], None)"
| "Get_sstables (sst # rest) key =
     (case SSTable_Get sst key of
        (sst', Inl err) \<Rightarrow> (case Get_sstables rest key of (rest', r) \<Rightarrow> (sst' # rest', r))
      | (sst', Inr None) \<Rightarrow> (case Get_sstables rest key of (rest', r) \<Rightarrow> (sst' # rest', r))
      | (sst', Inr (Some v)) \<Rightarrow> (sst' # rest, Some v))"

definition LSMStore_Get :: "LSMStore \<Rightarrow> string \<Rightarrow> LSMStore \<times> byte list option" where
  "LSMStore_Get store key =
     (case MemTable_Get (memTable store) key of
        Some v \<Rightarrow> (store, Some v)
      | None \<Rightarrow>
          (case (case immutableMemTable store of None \<Rightarrow> None | Some imm \<Rightarrow> MemTable_Get imm key) of
             Some v \<Rightarrow> (store, Some v)
           | None \<Rightarrow>
               (case Get_sstables (sstables store) key of
                  (ssts', r) \<Rightarrow> (store\<lparr>sstables := ssts'\<rparr>, r))))"

text \<open>
  \<open>rotateMemTable\<close> starts \<open>flushImmutableMemTable\<close> as a goroutine; here the flush is a
  step of its own, taken after the call that started it. The path of the new table is
  built by \<open>fmt.Sprintf("%s/sstable-%d.sst", store.dataDir, sstableID)\<close>.
\<close>

definition rotateMemTable :: "LSMStore \<Rightarrow> LSMStore \<times> Error option" where
  "rotateMemTable store =
     (let store1 = store\<lparr>memTable := MakeImmutable (memTable store)\<rparr> in
      if (case immutableMemTable store1 of None \<Rightarrow> False | Some imm \<Rightarrow> IsImmutable imm)
      then (store1, Some StillFlushing)
      else (store1\<lparr>immutableMemTable := Some (memTable store1),
                   memTable := NewMemTable (memtableSize store1)\<rparr>, None))"

definition LSMStore_Set :: "LSMStore \<Rightarrow> string \<Rightarrow> byte list \<Rightarrow> 64 word \<Rightarrow> LSMStore \<times> Error option" where
  "LSMStore_Set store key val now =
     (case MemTable_Set (memTable store) key val now of
        (Some err, mt) \<Rightarrow> (store\<lparr>memTable := mt\<rparr>, Some (Wrap ''failed to set value in memtable'' err))
      | (None, mt) \<Rightarrow>
          let store1 = store\<lparr>memTable := mt\<rparr> in
          if ShouldFlush (memTable store1) then
            (case rotateMemTable store1 of
               (store2, Some err) \<Rightarrow> (store2, Some (Wrap ''failed to rotate memtable'' err))
             | (store2, None) \<Rightarrow> (store2, None))
          else (store1, None))"

definition LSMStore_Delete :: "LSMStore \<Rightarrow> string \<Rightarrow> 64 word \<Rightarrow> LSMStore \<times> Error option" where
  "LSMStore_Delete store key now =
     (case MemTable_Delete (memTable store) key now of
        (Some err, mt) \<Rightarrow> (store\<lparr>memTable := mt\<rparr>, Some (Wrap ''failed to delete value in memtable'' err))
      | (None, mt) \<Rightarrow>
          let store1 = store\<lparr>memTable := mt\<rparr> in
          if ShouldFlush (memTable store1) then
            (case rotateMemTable store1 of
               (store2, Some err) \<Rightarrow> (store2, Some (Wrap ''failed to rotate memtable'' err))
             | (store2, None) \<Rightarrow> (store2, None))
          else (store1, None))"

definition flushPath :: "string \<Rightarrow> int \<Rightarrow> string" where
  "flushPath dir sstableID = dir @ ''/sstable-'' @ itoa sstableID @ ''.sst''"

definition flushImmutableMemTable :: "FS \<Rightarrow> LSMStore \<Rightarrow> FS \<times> LSMStore" where
  "flushImmutableMemTable fs store =
     (case immutableMemTable store of
        None \<Rightarrow> (fs, store)
      | Some memtableToFlush \<Rightarrow>
          let sstableID = nextSSTableID store;
              store1 = store\<lparr>nextSSTableID := sstableID + 1\<rparr>;
              path = flushPath (dataDir store1) sstableID
          in case FlushMemTableToSSTable fs memtableToFlush path of
               (fs1, Some err) \<Rightarrow> (fs1, store1)
             | (fs1, None) \<Rightarrow>
                 (case OpenSSTable fs1 path of
                    Inl err \<Rightarrow> (fs1, store1)
                  | Inr sstable \<Rightarrow>
                      (fs1, store1\<lparr>sstables := sstable # sstables store1,
                                   immutableMemTable := None\<rparr>)))"

section \<open>The write-ahead log and the store of package main\<close>

text \<open>
  The log file is observed through the calls made on it: \<open>FWrite s\<close> hands the bytes \<open>s\<close>
  to the operating system, \<open>FSync\<close> is \<open>file.Sync()\<close>, \<open>FClose\<close> is \<open>file.Close()\<close>. A
  write on a file that has been closed fails with \<open>os.ErrClosed\<close>. The \<open>bufio.Writer\<close>
  between the log and its file holds up to 4096 bytes in \<open>writer\<close>, and remembers its
  first write error in \<open>writerErr\<close>: from then on every call returns that error.
\<close>

datatype FileOp = FWrite string | FSync | FClose

record WAL =
  fileOps :: "FileOp list"
  closed :: bool
  writer :: string
  writerErr :: "Error option"
  walPath :: string

definition NewWAL :: "string \<Rightarrow> WAL" where
  "NewWAL p = \<lparr>fileOps = [], closed = False, writer = [], writerErr = None, walPath = p\<rparr>"

definition wal_file_Write :: "WAL \<Rightarrow> string \<Rightarrow> WAL \<times> Error option" where
  "wal_file_Write w s =
     (if closed w then (w, Some ErrClosed)
      else (w\<lparr>fileOps := fileOps w @ [FWrite s]\<rparr>, None))"

text \<open>
  \<open>bufio.Writer.Flush\<close> writes the buffer to the file when it is not empty.
  \<open>bufio.Writer.WriteString\<close>: a string that fits is appended to the buffer. One that
  does not fit is written straight to the file when the buffer is empty; otherwise the
  buffer is filled and flushed, and the rest is treated in the same way.
\<close>

definition bufio_Flush :: "WAL \<Rightarrow> WAL \<times> Error option" where
  "bufio_Flush w =
     (case writerErr w of
        Some err \<Rightarrow> (w, Some err)
      | None \<Rightarrow>
          if writer w = [] then (w, None)
          else
            (case wal_file_Write w (writer w) of
               (w1, Some err) \<Rightarrow> (w1\<lparr>writerErr := Some err\<rparr>, Some err)
             | (w1, None) \<Rightarrow> (w1\<lparr>writer := []\<rparr>, None)))"

definition bufio_WriteString :: "WAL \<Rightarrow> string \<Rightarrow> WAL \<times> Error option" where
  "bufio_WriteString w s =
     (case writerErr w of
        Some err \<Rightarrow> (w, Some err)
      | None \<Rightarrow>
          if length s \<le> 4096 - length (writer w) then (w\<lparr>writer := writer w @ s\<rparr>, None)
          else if writer w = [] then
            (case wal_file_Write w s of
               (w1, Some err) \<Rightarrow> (w1\<lparr>writerErr := Some err\<rparr>, Some err)
             | (w1, None) \<Rightarrow> (w1, None))
          else
            let n = 4096 - length (writer w) in
            case bufio_Flush (w\<lparr>writer := writer w @ take n s\<rparr>) of
              (w1, Some err) \<Rightarrow> (w1, Some err)
            | (w1, None) \<Rightarrow>
                let s1 = drop n s in
                if 4096 < length s1 then
                  (case wal_file_Write w1 s1 of
                     (w2, Some err) \<Rightarrow> (w2\<lparr>writerErr := Some err\<rparr>, Some err)
                   | (w2, None) \<Rightarrow> (w2, None))
                else (w1\<lparr>writer := s1\<rparr>, None))"

text \<open>\<open>WAL.WriteEntry\<close>; \<open>timestamp\<close> is the reading of \<open>time.Now().Unix()\<close>.\<close>

definition WAL_WriteEntry :: "WAL \<Rightarrow> int \<Rightarrow> string \<Rightarrow> string \<Rightarrow> string \<Rightarrow> WAL \<times> Error option" where
  "WAL_WriteEntry w timestamp operation key val =
     (let entry = itoa timestamp @ ''|'' @ operation @ ''|'' @ key @ ''|'' @ val @ [CHR 0x0A] in
      case bufio_WriteString w entry of
        (w1, Some err) \<Rightarrow> (w1, Some err)
      | (w1, None) \<Rightarrow> bufio_Flush w1)"

text \<open>\<open>WAL.Close\<close> flushes, ignores the result, and closes the file.\<close>

definition WAL_Close :: "WAL \<Rightarrow> WAL" where
  "WAL_Close w =
     (case bufio_Flush w of (w1, uu) \<Rightarrow> w1\<lparr>fileOps := fileOps w1 @ [FClose], closed := True\<rparr>)"

text \<open>The store of package main: a Go map from keys to values, as an association list.\<close>

record Store =
  data :: "(string \<times> string) list"

definition Store_Set :: "Store \<Rightarrow> string \<Rightarrow> string \<Rightarrow> Store" where
  "Store_Set s key val = s\<lparr>data := AList.update key val (data s)\<rparr>"

definition Store_Get :: "Store \<Rightarrow> string \<Rightarrow> string option" where
  "Store_Get s key = map_of (data s) key"

definition Store_Delete :: "Store \<Rightarrow> string \<Rightarrow> Store" where
  "Store_Delete s key = s\<lparr>data := AList.delete key (data s)\<rparr>"

text \<open>
  \<open>bufio.Scanner\<close> with its default split function \<open>ScanLines\<close>: the lines of the text,
  each without its newline and without one trailing carriage return; a last line
  without newline counts when it is not empty. A line that does not fit the scanner's
  buffer of \<open>MaxScanTokenSize\<close> bytes ends the scan with \<open>ErrTooLong\<close>. \<open>scanLines\<close> returns
  the lines scanned and whether the scan ended with that error.
\<close>

definition MaxScanTokenSize :: nat where
  "MaxScanTokenSize = 64 * 1024"

definition dropCR :: "string \<Rightarrow> string" where
  "dropCR l = (if l \<noteq> [] \<and> last l = CHR 0x0D then butlast l else l)"

fun scanLines_from :: "string \<Rightarrow> string \<Rightarrow> string list \<times> bool" where
  "scanLines_from [] cur =
     (if cur = [] then ([], False)
      else if MaxScanTokenSize \<le> length cur then ([], True)
      else ([dropCR cur], False))"
| "scanLines_from (c # cs) cur =
     (if c = CHR 0x0A then
        (if MaxScanTokenSize \<le> length cur then ([], True)
         else (case scanLines_from cs [] of (ls, tooLong) \<Rightarrow> (dropCR cur # ls, tooLong)))
      else scanLines_from cs (cur @ [c]))"

definition scanLines :: "string \<Rightarrow> string list \<times> bool" where
  "scanLines text = scanLines_from text []"

text \<open>\<open>strings.SplitN(s, sep, n)\<close> for a separator of one character: at most \<open>n\<close> parts, the last one the unsplit rest.\<close>

fun SplitN :: "string \<Rightarrow> char \<Rightarrow> nat \<Rightarrow> string list" where
  "SplitN s sep 0 = []"
| "SplitN s sep (Suc 0) = [s]"
| "SplitN s sep (Suc (Suc n)) =
     (if sep \<in> set s
      then takeWhile (\<lambda>c. c \<noteq> sep) s # SplitN (tl (dropWhile (\<lambda>c. c \<noteq> sep) s)) sep (Suc n)
      else [s])"

text \<open>
  \<open>WAL.Recover\<close>. What it prints is returned as a list: \<open>LogCorrupt n\<close> for the message
  about line \<open>n\<close>, \<open>LogUnknownOperation\<close>, and \<open>LogComplete n\<close> for
  \<open>WAL recovery complete: replayed n entries\<close>. The argument is the content of the file
  at \<open>w.path\<close>, \<open>None\<close> when there is no such file.
\<close>

datatype LogLine = LogCorrupt nat | LogUnknownOperation string | LogComplete nat

fun Recover_loop :: "string list \<Rightarrow> nat \<Rightarrow> Store \<Rightarrow> LogLine list \<Rightarrow> Store \<times> LogLine list \<times> nat" where
  "Recover_loop [] lineNum store log = (store, log, lineNum)"
| "Recover_loop (line # rest) lineNum0 store log =
     (let lineNum = lineNum0 + 1;
          parts = SplitN line (CHR ''|'') 4
      in if length parts < 4 then Recover_loop rest lineNum store (log @ [LogCorrupt lineNum])
         else
           let operation = parts ! 1; key = parts ! 2; val = parts ! 3 in
           if operation = ''SET'' then Recover_loop rest lineNum (Store_Set store key val) log
           else if operation = ''DEL'' then Recover_loop rest lineNum (Store_Delete store key) log
           else Recover_loop rest lineNum store (log @ [LogUnknownOperation operation]))"

definition WAL_Recover :: "string option \<Rightarrow> Store \<Rightarrow> Store \<times> LogLine list \<times> Error option" where
  "WAL_Recover walFile store =
     (case walFile of
        None \<Rightarrow> (store, [], None)
      | Some text \<Rightarrow>
          (case scanLines text of (lines, tooLong) \<Rightarrow>
           case Recover_loop lines 0 store [] of (store', log, lineNum) \<Rightarrow>
             if tooLong then (store', log, Some (Wrap ''error reading WAL'' ErrTooLong))
             else (store', log @ [LogComplete lineNum], None)))"

section \<open>Sample inputs\<close>

text \<open>An entry to write, and three SSTable files in the format of the reader, each with
  the single key \<open>k\<close>: the entry (key length, key, value length, value, timestamp,
  deleted byte), the index (key length, key, offset 0) and the footer (offset of the
  index, number of entries 1, version 1, magic number).
  \<open>fileV1\<close> holds the value \<open>v1\<close> with timestamp 1, \<open>fileV2\<close> the value \<open>v2\<close> with
  timestamp 2, \<open>fileDel\<close> a tombstone with timestamp 3.\<close>

definition sampleEntry :: Entry where
  "sampleEntry = \<lparr>Key = ''k'', Value = [1, 2, 3], Timestamp = 7, Deleted = False\<rparr>"

definition fileV1 :: "byte list" where
  "fileV1 =
     [1, 0, 0, 0] @ [107] @ [2, 0, 0, 0] @ [118, 49] @ [1, 0, 0, 0, 0, 0, 0, 0] @ [0]
     @ [1, 0, 0, 0] @ [107] @ [0, 0, 0, 0, 0, 0, 0, 0]
     @ [20, 0, 0, 0, 0, 0, 0, 0] @ [1, 0, 0, 0] @ [1, 0, 0, 0] @ [0xFE, 0xCA, 0xBE, 0xBA]"

definition fileV2 :: "byte list" where
  "fileV2 =
     [1, 0, 0, 0] @ [107] @ [2, 0, 0, 0] @ [118, 50] @ [2, 0, 0, 0, 0, 0, 0, 0] @ [0]
     @ [1, 0, 0, 0] @ [107] @ [0, 0, 0, 0, 0, 0, 0, 0]
     @ [20, 0, 0, 0, 0, 0, 0, 0] @ [1, 0, 0, 0] @ [1, 0, 0, 0] @ [0xFE, 0xCA, 0xBE, 0xBA]"

definition fileDel :: "byte list" where
  "fileDel =
     [1, 0, 0, 0] @ [107] @ [0, 0, 0, 0] @ [] @ [3, 0, 0, 0, 0, 0, 0, 0] @ [1]
     @ [1, 0, 0, 0] @ [107] @ [0, 0, 0, 0, 0, 0, 0, 0]
     @ [18, 0, 0, 0, 0, 0, 0, 0] @ [1, 0, 0, 0] @ [1, 0, 0, 0] @ [0xFE, 0xCA, 0xBE, 0xBA]"

text \<open>A data directory with the first two files, and one with all three.\<close>

definition dataDirFS :: FS where
  "dataDirFS = [(''data/sstable-1.db'', fileV1), (''data/sstable-2.db'', fileV2)]"

definition compactFS :: FS where
  "compactFS = [(''data/sstable-1.db'', fileV1), (''data/sstable-2.db'', fileV2),
                (''data/sstable-3.db'', fileDel)]"

text \<open>The three tables as \<open>OpenSSTable\<close> returns them: the handle stands behind the index.\<close>

definition sampleFooter :: "64 word \<Rightarrow> SSTableFooter" where
  "sampleFooter off = \<lparr>IndexStartOffset = off, NumberOfEntries = 1, FooterVersion = 1,
                        FooterMagicNumber = 0xBABECAFE\<rparr>"

definition table1 :: SSTable where
  "table1 = \<lparr>filePath = ''data/sstable-1.db'', handle = \<lparr>content = fileV1, pos = 33\<rparr>,
              index = [(''k'', 0)], footer = sampleFooter 20\<rparr>"

definition table2 :: SSTable where
  "table2 = \<lparr>filePath = ''data/sstable-2.db'', handle = \<lparr>content = fileV2, pos = 33\<rparr>,
              index = [(''k'', 0)], footer = sampleFooter 20\<rparr>"

definition table3 :: SSTable where
  "table3 = \<lparr>filePath = ''data/sstable-3.db'', handle = \<lparr>content = fileDel, pos = 31\<rparr>,
              index = [(''k'', 0)], footer = sampleFooter 18\<rparr>"

text \<open>A store whose immutable MemTable holds the sample entry and waits for its flush.\<close>

definition sampleStore :: LSMStore where
  "sampleStore =
     \<lparr>memTable = NewMemTable 500,
      immutableMemTable = Some \<lparr>entries = [sampleEntry], sizeBytes = 28, maxSize = 500, immutable = True\<rparr>,
      sstables = [], memtableSize = 500, dataDir = ''data'', nextSSTableID = 0\<rparr>"

text \<open>A file of 20 bytes: a footer alone, with no entries, version 2 and the magic number.\<close>

definition fileVersion2 :: "byte list" where
  "fileVersion2 = [0, 0, 0, 0, 0, 0, 0, 0] @ [0, 0, 0, 0] @ [2, 0, 0, 0] @ [0xFE, 0xCA, 0xBE, 0xBA]"

text \<open>A log of two lines: one that is not a record, and one \<open>SET\<close> record.\<close>

definition sampleWAL :: string where
  "sampleWAL = ''garbage'' @ [CHR 0x0A] @ ''5|SET|a|1'' @ [CHR 0x0A]"

text \<open>
  The number of records replayed, in the words of the specification and not of the
  source: the lines that split into four parts and carry the operation \<open>SET\<close> or \<open>DEL\<close>,
  which are the lines for which \<open>Recover\<close> calls \<open>store.Set\<close> or \<open>store.Delete\<close>.
\<close>

definition replayedRecords :: "string list \<Rightarrow> nat" where
  "replayedRecords lines =
     length (filter (\<lambda>line. let parts = SplitN line (CHR ''|'') 4 in
                       4 \<le> length parts \<and> (parts ! 1 = ''SET'' \<or> parts ! 1 = ''DEL'')) lines)"

section \<open>The MemTable stays sorted\<close>

text \<open>
  On a predicate that is monotone on \<open>[0, n)\<close>, \<open>Search\<close> returns the boundary: the
  predicate fails below the result and holds from it on.
\<close>

lemma Search_loop_spec:
  "(\<And>a b. a \<le> b \<Longrightarrow> b < n \<Longrightarrow> f a \<Longrightarrow> f b) \<Longrightarrow>
   i \<le> j \<Longrightarrow> j \<le> n \<Longrightarrow> (\<And>k. k < i \<Longrightarrow> \<not> f k) \<Longrightarrow> (\<And>k. j \<le> k \<Longrightarrow> k < n \<Longrightarrow> f k)
    \<Longrightarrow> Search_loop f i j \<le> n \<and> (\<forall>k < Search_loop f i j. \<not> f k)
        \<and> (\<forall>k. Search_loop f i j \<le> k \<and> k < n \<longrightarrow> f k)"
proof (induction f i j rule: Search_loop.induct)
  case (1 f i j)
  note mono = "1.prems"(1)
  note ij = "1.prems"(2) and jn = "1.prems"(3) and lo = "1.prems"(4) and hi = "1.prems"(5)
  show ?case
  proof (cases "i < j")
    case False
    with ij have "i = j" by simp
    have "Search_loop f i j = i"
      using False by (subst Search_loop.simps) simp
    with \<open>i = j\<close> jn lo hi show ?thesis by simp
  next
    case True
    define h where "h = (i + j) div 2"
    have hb: "i \<le> h" "h < j" using True by (auto simp: h_def)
    show ?thesis
    proof (cases "f h")
      case False
      have lo': "\<And>k. k < h + 1 \<Longrightarrow> \<not> f k"
      proof -
        fix k assume "k < h + 1"
        then have "k \<le> h" by simp
        moreover have "h < n" using hb jn by simp
        ultimately show "\<not> f k" using mono [of k h] False by blast
      qed
      have "Search_loop f (h + 1) j \<le> n \<and> (\<forall>k < Search_loop f (h + 1) j. \<not> f k)
        \<and> (\<forall>k. Search_loop f (h + 1) j \<le> k \<and> k < n \<longrightarrow> f k)"
      proof (rule "1.IH"(1) [OF True h_def False mono _ jn lo' hi])
        show "h + 1 \<le> j" using hb by simp
      qed
      moreover have "Search_loop f i j = Search_loop f (h + 1) j"
        using True False by (subst Search_loop.simps) (simp add: h_def Let_def)
      ultimately show ?thesis by simp
    next
      case fh: True
      have hn: "h \<le> n" using hb jn by simp
      have hi': "\<And>k. h \<le> k \<Longrightarrow> k < n \<Longrightarrow> f k"
        using mono fh by blast
      have "Search_loop f i h \<le> n \<and> (\<forall>k < Search_loop f i h. \<not> f k)
        \<and> (\<forall>k. Search_loop f i h \<le> k \<and> k < n \<longrightarrow> f k)"
        by (rule "1.IH"(2) [OF True h_def _ mono hb(1) hn lo hi']) (simp add: fh)
      moreover have "Search_loop f i j = Search_loop f i h"
        using True fh by (subst Search_loop.simps) (simp add: h_def Let_def)
      ultimately show ?thesis by simp
    qed
  qed
qed

lemma Search_spec:
  assumes "\<And>a b. a \<le> b \<Longrightarrow> b < n \<Longrightarrow> f a \<Longrightarrow> f b"
  shows "Search n f \<le> n" and "\<And>k. k < Search n f \<Longrightarrow> \<not> f k"
    and "\<And>k. Search n f \<le> k \<Longrightarrow> k < n \<Longrightarrow> f k"
proof -
  have "Search_loop f 0 n \<le> n \<and> (\<forall>k < Search_loop f 0 n. \<not> f k)
        \<and> (\<forall>k. Search_loop f 0 n \<le> k \<and> k < n \<longrightarrow> f k)"
    by (rule Search_loop_spec [OF assms]) simp_all
  then show "Search n f \<le> n" and "\<And>k. k < Search n f \<Longrightarrow> \<not> f k"
    and "\<And>k. Search n f \<le> k \<Longrightarrow> k < n \<Longrightarrow> f k"
    by (auto simp: Search_def)
qed

lemma Search_keys:
  assumes "sorted_wrt (<) (map Key es)"
    and idx_def: "idx = Search (length es) (\<lambda>i. Key (es ! i) \<ge> key)"
  shows "idx \<le> length es" and "\<And>k. k < idx \<Longrightarrow> Key (es ! k) < key"
    and "\<And>k. idx \<le> k \<Longrightarrow> k < length es \<Longrightarrow> key \<le> Key (es ! k)"
proof -
  have mono: "\<And>a b. a \<le> b \<Longrightarrow> b < length es \<Longrightarrow> key \<le> Key (es ! a) \<Longrightarrow> key \<le> Key (es ! b)"
  proof -
    fix a b assume ab: "a \<le> b" "b < length es" "key \<le> Key (es ! a)"
    show "key \<le> Key (es ! b)"
    proof (cases "a = b")
      case True with ab show ?thesis by simp
    next
      case False
      with ab have "a < b" by simp
      with assms(1) ab(2) have "map Key es ! a < map Key es ! b"
        by (simp add: sorted_wrt_iff_nth_less)
      with ab \<open>a < b\<close> show ?thesis by simp
    qed
  qed
  note S = Search_spec [where n = "length es" and f = "\<lambda>i. Key (es ! i) \<ge> key", OF mono]
  show "idx \<le> length es" unfolding idx_def by (rule S(1))
  show "\<And>k. k < idx \<Longrightarrow> Key (es ! k) < key" unfolding idx_def using S(2) by (simp add: not_le)
  show "\<And>k. idx \<le> k \<Longrightarrow> k < length es \<Longrightarrow> key \<le> Key (es ! k)" unfolding idx_def using S(3) by simp
qed

lemma insert_keeps_sorted:
  assumes srt: "sorted_wrt (<) (map Key es)"
    and idx: "idx = Search (length es) (\<lambda>i. Key (es ! i) \<ge> key)"
    and new: "\<not> (idx < length es \<and> Key (es ! idx) = key)"
    and ke: "Key e = key"
  shows "sorted_wrt (<) (map Key (take idx es @ e # drop idx es))"
proof -
  note K = Search_keys [OF srt idx]
  have lo: "\<And>x. x \<in> set (take idx es) \<Longrightarrow> Key x < key"
  proof -
    fix x assume "x \<in> set (take idx es)"
    then obtain k where "k < idx" "k < length es" "x = es ! k"
      by (auto simp: in_set_conv_nth)
    with K(2) [of k] show "Key x < key" by simp
  qed
  have hi: "\<And>x. x \<in> set (drop idx es) \<Longrightarrow> key < Key x"
  proof -
    fix x assume "x \<in> set (drop idx es)"
    then obtain k where k: "k < length es - idx" "x = es ! (idx + k)"
      by (auto simp: in_set_conv_nth)
    then have b: "idx + k < length es" by simp
    have "key \<le> Key x" using K(3) [of "idx + k"] b k by simp
    moreover have "Key x \<noteq> key"
    proof (cases "k = 0")
      case True with new b k show ?thesis by simp
    next
      case False
      then have "idx < idx + k" by simp
      with srt b have "map Key es ! idx < map Key es ! (idx + k)"
        by (simp add: sorted_wrt_iff_nth_less)
      then have "Key (es ! idx) < Key x" using b k by simp
      moreover have "key \<le> Key (es ! idx)" using K(3) [of idx] b by simp
      ultimately show ?thesis by simp
    qed
    ultimately show "key < Key x" by simp
  qed
  have s1: "sorted_wrt (<) (map Key (take idx es))"
    using srt by (simp add: sorted_wrt_take flip: take_map)
  have s2: "sorted_wrt (<) (map Key (drop idx es))"
    using srt by (simp add: sorted_wrt_drop flip: drop_map)
  show ?thesis
    using s1 s2 lo hi ke by (auto simp: sorted_wrt_append dest: less_trans)
qed

lemma update_keeps_keys:
  "idx < length es \<Longrightarrow> Key e = Key (es ! idx) \<Longrightarrow> map Key (es[idx := e]) = map Key es"
  by (simp add: map_update list_update_same_conv)

lemma MemTable_Set_sorted:
  "sorted_wrt (<) (map Key (entries mt)) \<Longrightarrow>
   sorted_wrt (<) (map Key (entries (snd (MemTable_Set mt k v now))))"
  by (auto simp: MemTable_Set_def Let_def update_keeps_keys insert_keeps_sorted simp del: map_append)

lemma MemTable_Delete_sorted:
  "sorted_wrt (<) (map Key (entries mt)) \<Longrightarrow>
   sorted_wrt (<) (map Key (entries (snd (MemTable_Delete mt k now))))"
  by (auto simp: MemTable_Delete_def Let_def update_keeps_keys insert_keeps_sorted simp del: map_append)

lemma applyOps_sorted:
  "sorted_wrt (<) (map Key (entries mt)) \<Longrightarrow>
   sorted_wrt (<) (map Key (entries (applyOps mt ops)))"
  unfolding applyOps_def
proof (induction ops arbitrary: mt)
  case Nil then show ?case by simp
next
  case (Cons x xs)
  have "sorted_wrt (<) (map Key (entries (applyOp mt x)))"
    using Cons.prems by (cases x) (simp_all add: MemTable_Set_sorted MemTable_Delete_sorted)
  then show ?case using Cons.IH by simp
qed

text \<open>
  Claim C9. Whatever sequence of \<open>Set\<close> and \<open>Delete\<close> calls is applied to a new MemTable,
  the keys of the list returned by \<open>GetAllEntries\<close> are strictly increasing, and so no key
  occurs twice.
\<close>

theorem MemTable_sorted_unique:
  "sorted_wrt (<) (map Key (GetAllEntries (applyOps (NewMemTable m) ops)))
   \<and> distinct (map Key (GetAllEntries (applyOps (NewMemTable m) ops)))"
proof -
  have "sorted_wrt (<) (map Key (entries (applyOps (NewMemTable m) ops)))"
    by (rule applyOps_sorted) (simp add: NewMemTable_def)
  then show ?thesis
    by (simp add: GetAllEntries_def strict_sorted_iff)
qed

section \<open>Evaluation of the byte encodings\<close>

text \<open>The encodings of 32-bit and 64-bit values written out, and the definitions that a
  concrete run of the writer or of the reader unfolds.\<close>

lemma le_bytes4: "le_bytes 4 w = [ucast w, ucast (drop_bit 8 w), ucast (drop_bit 16 w), ucast (drop_bit 24 w)]"
  by (simp add: numeral_eq_Suc drop_bit_drop_bit)

lemma le_bytes8: "le_bytes 8 w = [ucast w, ucast (drop_bit 8 w), ucast (drop_bit 16 w), ucast (drop_bit 24 w),
   ucast (drop_bit 32 w), ucast (drop_bit 40 w), ucast (drop_bit 48 w), ucast (drop_bit 56 w)]"
  by (simp add: numeral_eq_Suc drop_bit_drop_bit)

lemmas writer_defs = CreateSSTable_def WriteEntries_def WriteEntry_def WriteKey_def WriteValue_def
  WriteMetadata_def file_Write_def bytes_of_string_def WriteIndex_def WriteFooter_def le_bytes4 le_bytes8

lemmas reader_defs = OpenSSTable_def ReadFooter_def ReadIndex_def ReadEntryAtOffset_def andThen_def
  Seek_def ReadFull_def binary_Read_uint32_def binary_Read_int64_def binary_Read_byte_def
  ret_def fail_def MagicNumber_def string_of_bytes_def char_of_def bit_0 Let_def

section \<open>The writer stops at the footer\<close>

text \<open>
  \<open>WriteFooter\<close> hands \<open>Version\<close> to \<open>binary.Write\<close> as an \<open>int\<close>, which
  \<open>binary.Write\<close> refuses: whatever the arguments, \<open>WriteFooter\<close> returns an error after
  the first two fields, and so does \<open>CreateSSTable\<close>.
\<close>

lemma WriteFooter_fails: "snd (snd (WriteFooter f a b)) \<noteq> None"
  by (simp add: WriteFooter_def split: prod.splits option.splits)

lemma CreateSSTable_never_succeeds: "snd (CreateSSTable fs p es) \<noteq> None"
proof -
  have "\<And>f a b x y. WriteFooter f a b \<noteq> (x, y, None)"
    using WriteFooter_fails by (metis snd_conv)
  then show ?thesis
    by (auto simp: CreateSSTable_def split: prod.splits option.splits)
qed

text \<open>
  Claim C8 says that a file produced by a successful \<open>CreateSSTable\<close> ends with a footer
  of 20 bytes whose last four bytes are the magic number \<open>FE CA BE BA\<close>. On the sample
  entry \<open>CreateSSTable\<close> returns the error of the version field, and the file it leaves
  ends with the 12 bytes of the first two footer fields: the index offset 21 and the
  number of entries 1. No version and no magic number are written.
\<close>

theorem CreateSSTable_leaves_no_footer:
  "CreateSSTable [] ''data/sstable-0.db'' [sampleEntry]
     = ([(''data/sstable-0.db'',
          [1, 0, 0, 0, 107, 3, 0, 0, 0, 1, 2, 3, 7, 0, 0, 0, 0, 0, 0, 0, 0,
           1, 0, 0, 0, 107, 0, 0, 0, 0, 0, 0, 0, 0,
           21, 0, 0, 0, 0, 0, 0, 0, 1, 0, 0, 0])],
        Some (Wrap ''failed to write footer'' (Wrap ''failed to write version'' (NotFixedSize ''int''))))"
  by (simp add: writer_defs sampleEntry_def)

text \<open>
  Claim C1 says that writing entries with \<open>CreateSSTable\<close> and opening the file with
  \<open>OpenSSTable\<close> reads the entries back. On the sample entry the writer returns the
  error of the version field, and \<open>OpenSSTable\<close> rejects the file that is left: the last
  four bytes, read as the magic number, are the number of entries 1.
\<close>

theorem roundtrip_fails_at_footer:
  "snd (CreateSSTable [] ''data/sstable-0.db'' [sampleEntry])
     = Some (Wrap ''failed to write footer'' (Wrap ''failed to write version'' (NotFixedSize ''int'')))
   \<and> OpenSSTable (fst (CreateSSTable [] ''data/sstable-0.db'' [sampleEntry])) ''data/sstable-0.db''
     = Inl (Wrap ''failed to read footer'' (InvalidMagic 1))"
  by (simp add: writer_defs reader_defs sampleEntry_def)

section \<open>What the reader rejects\<close>

text \<open>
  Claim C7 says that \<open>OpenSSTable\<close> rejects a footer whose version is not 1. It does
  not: \<open>ReadFooter\<close> reads the version and compares only the magic number. The file
  \<open>fileVersion2\<close>, a footer with version 2, is opened.
\<close>

theorem OpenSSTable_accepts_version_2:
  "OpenSSTable [(''data/sstable-0.db'', fileVersion2)] ''data/sstable-0.db''
     = Inr \<lparr>filePath = ''data/sstable-0.db'', handle = \<lparr>content = fileVersion2, pos = 0\<rparr>,
            index = [],
            footer = \<lparr>IndexStartOffset = 0, NumberOfEntries = 0, FooterVersion = 2,
                      FooterMagicNumber = 0xBABECAFE\<rparr>\<rparr>"
  by (simp add: reader_defs fileVersion2_def)

lemma ReadFooter_bad_magic:
  assumes len: "20 \<le> length bytes"
    and bad: "le_word (drop (length bytes - 4) bytes) \<noteq> (0xBABECAFE :: 32 word)"
  shows "snd (ReadFooter \<lparr>content = bytes, pos = 0\<rparr>)
           = Inl (InvalidMagic (le_word (drop (length bytes - 4) bytes)))"
proof -
  define n where "n = length bytes - 20"
  have l: "length bytes = n + 20" using len by (simp add: n_def)
  have d: "take 4 (drop (16 + n) bytes) = drop (16 + n) bytes"
    by (simp add: l)
  have e: "length bytes - 4 = 16 + n" by (simp add: l)
  show ?thesis
    using bad unfolding e
    by (simp add: ReadFooter_def andThen_def Seek_def ReadFull_def binary_Read_uint32_def
        binary_Read_int64_def fail_def ret_def MagicNumber_def Let_def l d nat_add_distrib)
qed

text \<open>
  Claim C7 as amended: \<open>OpenSSTable\<close> rejects a file shorter than 20 bytes, and a file of
  at least 20 bytes whose last four bytes are not the magic number \<open>0xBABECAFE\<close> in
  little-endian order; in both cases the error is the one of \<open>ReadFooter\<close>, wrapped in
  \<open>failed to read footer\<close>.
\<close>

theorem OpenSSTable_rejects_short_and_bad_magic:
  "map_of fs p = Some bytes \<Longrightarrow>
   (length bytes < 20 \<longrightarrow> OpenSSTable fs p = Inl (Wrap ''failed to read footer'' FileTooSmall)) \<and>
   (20 \<le> length bytes \<and> le_word (drop (length bytes - 4) bytes) \<noteq> (0xBABECAFE :: 32 word) \<longrightarrow>
      OpenSSTable fs p
        = Inl (Wrap ''failed to read footer'' (InvalidMagic (le_word (drop (length bytes - 4) bytes)))))"
proof (intro conjI impI)
  assume m: "map_of fs p = Some bytes" and "length bytes < 20"
  then show "OpenSSTable fs p = Inl (Wrap ''failed to read footer'' FileTooSmall)"
    by (simp add: OpenSSTable_def ReadFooter_def)
next
  assume m: "map_of fs p = Some bytes"
    and b: "20 \<le> length bytes \<and> le_word (drop (length bytes - 4) bytes) \<noteq> (0xBABECAFE :: 32 word)"
  from b have "snd (ReadFooter \<lparr>content = bytes, pos = 0\<rparr>)
           = Inl (InvalidMagic (le_word (drop (length bytes - 4) bytes)))"
    by (simp add: ReadFooter_bad_magic)
  then show "OpenSSTable fs p
        = Inl (Wrap ''failed to read footer'' (InvalidMagic (le_word (drop (length bytes - 4) bytes))))"
    using m by (cases "ReadFooter \<lparr>content = bytes, pos = 0\<rparr>") (simp add: OpenSSTable_def)
qed

text \<open>
  The amended claim at two files: one of three bytes, and one of 20 bytes whose last
  byte is \<open>BB\<close> instead of \<open>BA\<close>.
\<close>

theorem OpenSSTable_rejects_witness:
  "OpenSSTable [(''data/sstable-0.db'', [1, 2, 3])] ''data/sstable-0.db''
     = Inl (Wrap ''failed to read footer'' FileTooSmall)
   \<and> OpenSSTable [(''data/sstable-0.db'', [0, 0, 0, 0, 0, 0, 0, 0, 0, 0, 0, 0, 1, 0, 0, 0, 0xFE, 0xCA, 0xBE, 0xBB])]
        ''data/sstable-0.db''
     = Inl (Wrap ''failed to read footer'' (InvalidMagic 0xBBBECAFE))"
  using OpenSSTable_rejects_short_and_bad_magic
          [of "[(''data/sstable-0.db'', [1, 2, 3])]" "''data/sstable-0.db''" "[1, 2, 3]"]
        OpenSSTable_rejects_short_and_bad_magic
          [of "[(''data/sstable-0.db'', [0, 0, 0, 0, 0, 0, 0, 0, 0, 0, 0, 0, 1, 0, 0, 0, 0xFE, 0xCA, 0xBE, 0xBB])]"
              "''data/sstable-0.db''" "[0, 0, 0, 0, 0, 0, 0, 0, 0, 0, 0, 0, 1, 0, 0, 0, 0xFE, 0xCA, 0xBE, 0xBB]"]
  by simp

section \<open>Compaction\<close>

text \<open>
  Claim C10. \<open>CompactSSTables\<close> on a list of exactly one table returns the path of that
  table; the file system is returned as it was (no file is created or changed) and so
  is the table with its handle (nothing is read through it).
\<close>

theorem CompactSSTables_single:
  "CompactSSTables iter fs [sst] outputPath = (fs, [sst], Inr (filePath sst))"
  by (simp add: CompactSSTables_def FilePath_def)

text \<open>The sample tables are what \<open>OpenSSTable\<close> returns for the sample files, and what
  lookups and full scans of them give.\<close>

lemma OpenSSTable_samples:
  "OpenSSTable compactFS ''data/sstable-1.db'' = Inr table1"
  "OpenSSTable compactFS ''data/sstable-2.db'' = Inr table2"
  "OpenSSTable compactFS ''data/sstable-3.db'' = Inr table3"
  by (simp_all add: reader_defs compactFS_def fileV1_def fileV2_def fileDel_def
      table1_def table2_def table3_def sampleFooter_def)

lemma OpenSSTable_dataDir:
  "OpenSSTable dataDirFS ''data/sstable-1.db'' = Inr table1"
  "OpenSSTable dataDirFS ''data/sstable-2.db'' = Inr table2"
  by (simp_all add: reader_defs dataDirFS_def fileV1_def fileV2_def
      table1_def table2_def sampleFooter_def)

lemma SSTable_Get_samples:
  "snd (SSTable_Get table1 ''k'') = Inr (Some (bytes_of_string ''v1''))"
  "snd (SSTable_Get table2 ''k'') = Inr (Some (bytes_of_string ''v2''))"
  "snd (SSTable_Get table3 ''k'') = Inr None"
  by (simp_all add: SSTable_Get_def reader_defs fileV1_def fileV2_def fileDel_def
      table1_def table2_def table3_def bytes_of_string_def)

lemma getAllEntries_samples:
  "snd (getAllEntriesFromSSTable (\<lambda>m. m) table1)
     = [\<lparr>Key = ''k'', Value = bytes_of_string ''v1'', Timestamp = 1, Deleted = False\<rparr>]"
  "snd (getAllEntriesFromSSTable (\<lambda>m. m) table2)
     = [\<lparr>Key = ''k'', Value = bytes_of_string ''v2'', Timestamp = 2, Deleted = False\<rparr>]"
  "snd (getAllEntriesFromSSTable (\<lambda>m. m) table3)
     = [\<lparr>Key = ''k'', Value = [], Timestamp = 3, Deleted = True\<rparr>]"
  by (simp_all add: getAllEntriesFromSSTable_def reader_defs fileV1_def fileV2_def fileDel_def
      table1_def table2_def table3_def bytes_of_string_def)

lemma collectEntries_samples:
  "snd (collectEntries (\<lambda>m. m) [table3, table2, table1])
     = [[\<lparr>Key = ''k'', Value = [], Timestamp = 3, Deleted = True\<rparr>],
        [\<lparr>Key = ''k'', Value = bytes_of_string ''v2'', Timestamp = 2, Deleted = False\<rparr>],
        [\<lparr>Key = ''k'', Value = bytes_of_string ''v1'', Timestamp = 1, Deleted = False\<rparr>]]"
  using getAllEntries_samples by (simp add: split_beta)

text \<open>
  Claim C2 says that compaction keeps, for each key, the entry with the highest
  timestamp, and drops the key when that entry is a tombstone. \<open>CompactSSTables\<close> merges
  the tables two at a time and drops a tombstone as soon as it has won one merge. On the
  three sample tables (tombstone with timestamp 3, \<open>v2\<close> with timestamp 2, \<open>v1\<close> with
  timestamp 1; with one key per table there is one order of iteration only) the first
  merge drops the key and the second brings back \<open>v1\<close>: the entries handed to
  \<open>CreateSSTable\<close> resolve \<open>k\<close> to its oldest value. \<open>CreateSSTable\<close> then fails at the
  footer, so no compacted table exists. Before compaction the lookup over the same
  tables finds \<open>v2\<close>.
\<close>

theorem compaction_resurrects_deleted_key:
  "mergeAll (snd (collectEntries (\<lambda>m. m) [table3, table2, table1]))
     = [\<lparr>Key = ''k'', Value = bytes_of_string ''v1'', Timestamp = 1, Deleted = False\<rparr>]
   \<and> snd (snd (CompactSSTables (\<lambda>m. m) compactFS [table3, table2, table1] ''data/sstable-4.db''))
     = Inl (Wrap ''failed to write footer'' (Wrap ''failed to write version'' (NotFixedSize ''int'')))
   \<and> snd (Get_sstables [table3, table2, table1] ''k'') = Some (bytes_of_string ''v2'')"
proof -
  have m: "mergeAll (snd (collectEntries (\<lambda>m. m) [table3, table2, table1]))
     = [\<lparr>Key = ''k'', Value = bytes_of_string ''v1'', Timestamp = 1, Deleted = False\<rparr>]"
    by (simp only: collectEntries_samples) (simp add: mergeEntries_def)
  have c: "snd (snd (CompactSSTables (\<lambda>m. m) compactFS [table3, table2, table1] ''data/sstable-4.db''))
     = Inl (Wrap ''failed to write footer'' (Wrap ''failed to write version'' (NotFixedSize ''int'')))"
    unfolding CompactSSTables_def
    by (simp add: split_beta m writer_defs del: collectEntries.simps mergeAll.simps)
  have g: "snd (Get_sstables [table3, table2, table1] ''k'') = Some (bytes_of_string ''v2'')"
    using SSTable_Get_samples by (simp add: split_beta)
  from m c g show ?thesis by simp
qed

section \<open>Loading and flushing SSTables\<close>

lemma Glob_dataDir: "Glob dataDirFS ''data'' = [''data/sstable-1.db'', ''data/sstable-2.db'']"
  by (simp add: Glob_def dataDirFS_def matchSSTable_def)

lemma extractSSTableId_samples:
  "extractSSTableId ''data/sstable-1.db'' = 1" "extractSSTableId ''data/sstable-2.db'' = 2"
  by (simp_all add: extractSSTableId_def Base_def TrimPrefix_def TrimSuffix_def Atoi_def isDigit_def digitVal_def)

lemma NewLSMStore_dataDir:
  "NewLSMStore dataDirFS 0 ''data''
     = Inr \<lparr>memTable = NewMemTable DefaultMemTableSize,
            immutableMemTable = Some (NewMemTable DefaultMemTableSize),
            sstables = [table1, table2], memtableSize = DefaultMemTableSize,
            dataDir = ''data'', nextSSTableID = 3\<rparr>"
  by (simp add: NewLSMStore_def loadSSTables_def Glob_dataDir extractSSTableId_samples
      OpenSSTable_dataDir Let_def)

lemma MemTable_Get_new: "MemTable_Get (NewMemTable m) key = None"
  by (simp add: MemTable_Get_def NewMemTable_def Search_def Search_loop.simps)

text \<open>
  Claim C3 says that after the store is constructed, \<open>Get\<close> visits the loaded tables
  from the highest id to the lowest. \<open>loadSSTables\<close> appends them by increasing id and
  \<open>Get\<close> visits them from index 0: in the sample directory the table with id 1 is first,
  and the key \<open>k\<close>, present in both files, resolves to \<open>v1\<close> of the file with the lower
  id.
\<close>

theorem Get_after_load_reads_oldest_first:
  "(case NewLSMStore dataDirFS 0 ''data'' of
      Inl err \<Rightarrow> None
    | Inr store \<Rightarrow> Some (map FilePath (sstables store), snd (LSMStore_Get store ''k'')))
   = Some ([''data/sstable-1.db'', ''data/sstable-2.db''], Some (bytes_of_string ''v1''))"
proof -
  have "snd (Get_sstables [table1, table2] ''k'') = Some (bytes_of_string ''v1'')"
    using SSTable_Get_samples(1) by (simp add: split_beta)
  then show ?thesis
    by (simp add: NewLSMStore_dataDir LSMStore_Get_def MemTable_Get_new FilePath_def split_beta)
      (simp add: table1_def table2_def)
qed

lemma matchSSTable_sst: "\<not> matchSSTable (xs @ ''.sst'')"
proof -
  have "drop (length (xs @ ''.sst'') - 3) (xs @ ''.sst'') = ''sst''" by simp
  then show ?thesis unfolding matchSSTable_def by simp
qed

lemma utoa_0: "utoa 0 = ''0''"
  by (subst utoa.simps) simp

text \<open>
  Claim C4 says that the flush writes to \<open>data_dir/sstable-<id>.db\<close>, a name that the
  loader finds again. The flush writes to \<open>data_dir/sstable-<id>.sst\<close>: the flush of the
  sample store leaves \<open>data/sstable-0.sst\<close> (cut short at the footer), the loader's
  pattern \<open>sstable-*.db\<close> finds nothing in that directory, and no path of a flush is
  ever among the files that \<open>loadSSTables\<close> gets from its pattern.
\<close>

theorem flushed_table_not_loaded:
  "fst (flushImmutableMemTable [] sampleStore)
     = [(''data/sstable-0.sst'',
         [1, 0, 0, 0, 107, 3, 0, 0, 0, 1, 2, 3, 7, 0, 0, 0, 0, 0, 0, 0, 0,
          1, 0, 0, 0, 107, 0, 0, 0, 0, 0, 0, 0, 0,
          21, 0, 0, 0, 0, 0, 0, 0, 1, 0, 0, 0])]
   \<and> Glob (fst (flushImmutableMemTable [] sampleStore)) ''data'' = []
   \<and> (\<forall>dir sstableID fs. flushPath dir sstableID \<notin> set (Glob fs dir))"
proof -
  have "\<And>dir sstableID. \<not> matchSSTable (drop (length dir + 1) (flushPath dir sstableID))"
  proof -
    fix dir :: string and sstableID :: int
    have "drop (length dir + 1) (flushPath dir sstableID) = (''sstable-'' @ itoa sstableID) @ ''.sst''"
      by (simp add: flushPath_def)
    then show "\<not> matchSSTable (drop (length dir + 1) (flushPath dir sstableID))"
      using matchSSTable_sst [of "''sstable-'' @ itoa sstableID"] by simp
  qed
  then have g: "\<forall>dir sstableID fs. flushPath dir sstableID \<notin> set (Glob fs dir)"
    by (simp add: Glob_def)
  have p: "flushPath ''data'' 0 = ''data/sstable-0.sst''"
    by (simp add: flushPath_def itoa_def utoa_0)
  have f: "fst (flushImmutableMemTable [] sampleStore)
     = [(''data/sstable-0.sst'',
         [1, 0, 0, 0, 107, 3, 0, 0, 0, 1, 2, 3, 7, 0, 0, 0, 0, 0, 0, 0, 0,
          1, 0, 0, 0, 107, 0, 0, 0, 0, 0, 0, 0, 0,
          21, 0, 0, 0, 0, 0, 0, 0, 1, 0, 0, 0])]"
    by (simp add: flushImmutableMemTable_def sampleStore_def FlushMemTableToSSTable_def
        GetAllEntries_def p writer_defs sampleEntry_def)
  have "Glob (fst (flushImmutableMemTable [] sampleStore)) ''data'' = []"
    unfolding f by (simp add: Glob_def matchSSTable_def)
  with f g show ?thesis by simp
qed

section \<open>The write-ahead log\<close>

text \<open>
  Claim C5 says that a successful \<open>WriteEntry\<close> has flushed the buffer and called
  \<open>fsync\<close> on the file. \<open>WriteEntry\<close> flushes the buffer and returns: the file has
  been synced after the call exactly if it had been before, and on a new log the call
  succeeds with the write of the record as the only operation on the file.
\<close>

theorem WriteEntry_does_not_sync:
  "(FSync \<in> set (fileOps (fst (WAL_WriteEntry w timestamp operation key val)))) = (FSync \<in> set (fileOps w))
   \<and> WAL_WriteEntry (NewWAL p) timestamp operation key val
       = (\<lparr>fileOps = [FWrite (itoa timestamp @ ''|'' @ operation @ ''|'' @ key @ ''|'' @ val @ [CHR 0x0A])],
           closed = False, writer = [], writerErr = None, walPath = p\<rparr>, None)"
proof -
  have f: "\<And>w. (FSync \<in> set (fileOps (fst (bufio_Flush w)))) = (FSync \<in> set (fileOps w))"
    by (simp add: bufio_Flush_def wal_file_Write_def split: option.splits)
  have s: "\<And>w s. (FSync \<in> set (fileOps (fst (bufio_WriteString w s)))) = (FSync \<in> set (fileOps w))"
    by (simp add: bufio_WriteString_def bufio_Flush_def wal_file_Write_def Let_def split: option.splits)
  have "(FSync \<in> set (fileOps (fst (WAL_WriteEntry w timestamp operation key val)))) = (FSync \<in> set (fileOps w))"
  proof -
    define entry where "entry = itoa timestamp @ ''|'' @ operation @ ''|'' @ key @ ''|'' @ val @ [CHR 0x0A]"
    obtain w1 r where ws: "bufio_WriteString w entry = (w1, r)"
      by (cases "bufio_WriteString w entry")
    have w1: "(FSync \<in> set (fileOps w1)) = (FSync \<in> set (fileOps w))"
      using s [of w entry] ws by simp
    show ?thesis
    proof (cases r)
      case None
      then have "fst (WAL_WriteEntry w timestamp operation key val) = fst (bufio_Flush w1)"
        using ws by (simp add: WAL_WriteEntry_def entry_def)
      then show ?thesis using f [of w1] w1 by simp
    next
      case (Some err)
      then have "fst (WAL_WriteEntry w timestamp operation key val) = w1"
        using ws by (simp add: WAL_WriteEntry_def entry_def)
      then show ?thesis using w1 by simp
    qed
  qed
  moreover have "WAL_WriteEntry (NewWAL p) timestamp operation key val
       = (\<lparr>fileOps = [FWrite (itoa timestamp @ ''|'' @ operation @ ''|'' @ key @ ''|'' @ val @ [CHR 0x0A])],
           closed = False, writer = [], writerErr = None, walPath = p\<rparr>, None)"
    by (simp add: WAL_WriteEntry_def bufio_WriteString_def bufio_Flush_def wal_file_Write_def NewWAL_def Let_def)
  ultimately show ?thesis by simp
qed

text \<open>The counter that \<open>Recover\<close> reports is the number of lines it has read.\<close>

lemma Recover_loop_lineNum:
  "snd (snd (Recover_loop lines lineNum0 store log)) = lineNum0 + length lines"
  by (induction lines arbitrary: lineNum0 store log) (simp_all add: Let_def)

lemma SplitN_4: "SplitN s sep 4 = SplitN s sep (Suc (Suc (Suc (Suc 0))))"
  by (simp add: eval_nat_numeral)

text \<open>
  Claim C6 says that the count reported by \<open>Recover\<close> is the number of records
  replayed. \<open>Recover\<close> reports its line counter. On the sample log the first line is
  skipped and the second is replayed (the store holds \<open>a\<close>), one record in all, and the
  report says 2.
\<close>
theorem Recover_reports_lines_read:
  "WAL_Recover (Some sampleWAL) \<lparr>data = []\<rparr>
     = (\<lparr>data = [(''a'', ''1'')]\<rparr>, [LogCorrupt 1, LogComplete 2], None)
   \<and> replayedRecords (fst (scanLines sampleWAL)) = 1"
  by (simp add: WAL_Recover_def sampleWAL_def scanLines_def dropCR_def MaxScanTokenSize_def
      Store_Set_def Store_Delete_def replayedRecords_def Let_def SplitN_4)

end
